theory Spec2Isabelle
  imports Complex_Main
begin

section \<open>Data model (types.ts)\<close>

text \<open>
  \<^verbatim>\<open>DetectedObject\<close> of the source: \<^verbatim>\<open>box_2d\<close> is the array
  \<^verbatim>\<open>[ymin, xmin, ymax, xmax]\<close> on the 0-1000 scale, destructured by every
  renderer into exactly these four numbers. JavaScript numbers are modelled as reals.
\<close>

record DetectedObject =
  label :: string
  confidence :: real
  box_2d :: "real \<times> real \<times> real \<times> real"

section \<open>Geometry, hue and fade (LiveStream.tsx draw, AnalysisTool.tsx drawAnnotations)\<close>

text \<open>
  Both renderers and the heat map compute the pixel rectangle of a box with the same four
  lines (LiveStream.tsx 235-238, AnalysisTool.tsx 219-222): the canvas width and height are
  the element's client size, a non-negative integer.
\<close>

definition normalizeToCanvas :: "real \<times> real \<times> real \<times> real \<Rightarrow> nat \<Rightarrow> nat \<Rightarrow> real \<times> real \<times> real \<times> real" where
  "normalizeToCanvas box width height =
     (case box of (ymin, xmin, ymax, xmax) \<Rightarrow>
        ((xmin / 1000) * real width,
         (ymin / 1000) * real height,
         ((xmax - xmin) / 1000) * real width,
         ((ymax - ymin) / 1000) * real height))"

text \<open>\<^verbatim>\<open>const hue = (idx * 137) % 360\<close>, with \<^verbatim>\<open>idx\<close> the index given by forEach.\<close>

definition hue :: "nat \<Rightarrow> nat" where
  "hue idx = (idx * 137) mod 360"

text \<open>
  LiveStream.tsx 223-225: \<^verbatim>\<open>timeSinceLastDetection = Date.now() - lastDetectionTimeRef.current\<close>
  and \<^verbatim>\<open>opacity = Math.max(0, 1 - (timeSinceLastDetection / 1500))\<close>. Both time stamps are
  integer milliseconds.
\<close>

definition opacity :: "int \<Rightarrow> int \<Rightarrow> real" where
  "opacity now lastDetectionTime =
     (let timeSinceLastDetection = now - lastDetectionTime
      in max 0 (1 - real_of_int timeSinceLastDetection / 1500))"

section \<open>Heat-map recolour pass (HeatmapLayer, lines 73-108)\<close>

text \<open>
  The body of the \<^verbatim>\<open>if (alpha > 10)\<close> block that maps the normalised intensity
  \<^verbatim>\<open>t\<close> to the triple \<^verbatim>\<open>(r, g, b)\<close>; the three variables start at 0.
\<close>

definition heatRamp :: "real \<Rightarrow> real \<times> real \<times> real" where
  "heatRamp t =
     (if t < 0.25 then (0, (t / 0.25) * 255, 255)
      else if t < 0.5 then (0, 255, (1 - (t - 0.25) / 0.25) * 255)
      else if t < 0.75 then (((t - 0.5) / 0.25) * 255, 255, 0)
      else (255, (1 - (t - 0.75) / 0.25) * 255, 0))"

text \<open>
  A store into the \<^verbatim>\<open>Uint8ClampedArray\<close> of the image data clamps to 0..255 and rounds
  to the nearest integer, a tie going to the even one.
\<close>

definition toUint8Clamped :: "real \<Rightarrow> nat" where
  "toUint8Clamped v =
     (if v \<le> 0 then 0
      else if 255 \<le> v then 255
      else (let f = \<lfloor>v\<rfloor>; d = v - of_int f
            in nat (if d < 1 / 2 then f
                    else if 1 / 2 < d then f + 1
                    else if even f then f else f + 1)))"

text \<open>One iteration of the loop: the four bytes of a pixel, \<^verbatim>\<open>alpha = data[i + 3]\<close>.\<close>

definition recolorPixel :: "nat \<Rightarrow> nat \<Rightarrow> nat \<Rightarrow> nat \<Rightarrow> nat list" where
  "recolorPixel r0 g0 b0 alpha =
     (if alpha > 10 then
        (let t = real alpha / 255
         in case heatRamp t of (r, g, b) \<Rightarrow>
              [toUint8Clamped r, toUint8Clamped g, toUint8Clamped b, min 180 alpha])
      else [r0, g0, b0, 0])"

text \<open>The loop \<^verbatim>\<open>for (let i = 0; i < data.length; i += 4)\<close> over the RGBA bytes.\<close>

fun recolor :: "nat list \<Rightarrow> nat list" where
  "recolor (r0 # g0 # b0 # alpha # rest) = recolorPixel r0 g0 b0 alpha @ recolor rest"
| "recolor rest = rest"

section \<open>Annotation renderers\<close>

text \<open>
  The canvas is modelled by the sequence of drawing calls a renderer issues, each with the
  style that is current when it is issued. \<open>HSLA h s l a\<close> stands for the CSS colour
  \<^verbatim>\<open>hsla(h, s%, l%, a)\<close> and \<open>RGBA r g b a\<close> for \<^verbatim>\<open>rgba(r, g, b, a)\<close>;
  \<open>ScanGradient y0 y1\<close> is the vertical gradient of the scan line.
\<close>

datatype colour = HSLA nat nat nat real | RGBA nat nat nat real | ScanGradient real real

datatype draw_cmd =
    ClearRect real real real real
  | StrokeRect colour real real real real
  | FillRect colour real real real real
  | StrokePath colour "(real \<times> real) list list"
  | FillRoundRect colour real real real real real
  | FillText colour string real real

text \<open>\<^verbatim>\<open>Math.round\<close> rounds to the nearest integer, a tie going up.\<close>

definition Math_round :: "real \<Rightarrow> int" where
  "Math_round v = \<lfloor>v + 1 / 2\<rfloor>"

fun showNat :: "nat \<Rightarrow> string" where
  "showNat n = (if n < 10 then [''0123456789'' ! n]
                else showNat (n div 10) @ [''0123456789'' ! (n mod 10)])"

definition showInt :: "int \<Rightarrow> string" where
  "showInt i = (if i < 0 then CHR ''-'' # showNat (nat (- i)) else showNat (nat i))"

text \<open>\<^verbatim>\<open>toUpperCase\<close> on the ASCII letters; other characters are left as they are.\<close>

definition toUpperCase :: "string \<Rightarrow> string" where
  "toUpperCase str =
     map (\<lambda>c. case map_of (zip ''abcdefghijklmnopqrstuvwxyz'' ''ABCDEFGHIJKLMNOPQRSTUVWXYZ'') c of
                Some u \<Rightarrow> u
              | None \<Rightarrow> c) str"

text \<open>AnalysisTool.tsx 37-40: the objects at or above the confidence filter.\<close>

definition filteredObjects :: "DetectedObject list \<Rightarrow> real \<Rightarrow> DetectedObject list" where
  "filteredObjects objects confidenceFilter =
     filter (\<lambda>obj. confidence obj \<ge> confidenceFilter) objects"

text \<open>
  AnalysisTool.tsx 216-257, the callback of \<^verbatim>\<open>filteredObjects.forEach\<close>. The width of
  the rendered text, \<^verbatim>\<open>ctx.measureText(text).width\<close>, depends on the font and is a
  parameter.
\<close>

definition annotateObject :: "(string \<Rightarrow> real) \<Rightarrow> nat \<Rightarrow> nat \<Rightarrow> nat \<Rightarrow> DetectedObject \<Rightarrow> draw_cmd list" where
  "annotateObject measureText width height idx obj =
     (case normalizeToCanvas (box_2d obj) width height of (x, y, w, h) \<Rightarrow>
        (let color = HSLA (hue idx) 80 50 1;
             bgFill = HSLA (hue idx) 80 50 0.1;
             text = label obj @ '' '' @ showInt (Math_round (confidence obj * 100)) @ ''%'';
             padding = 6;
             textWidth = measureText text + padding * 2;
             textHeight = 22;
             labelY = (if y - textHeight < 0 then y else y - textHeight);
             labelX = (if x + textWidth > real width then real width - textWidth else x)
         in [StrokeRect color x y w h,
             FillRect bgFill x y w h,
             FillRoundRect color labelX labelY textWidth textHeight 4,
             FillText (RGBA 255 255 255 1) text (labelX + padding) (labelY + textHeight / 2)]))"

text \<open>
  AnalysisTool.tsx 192-258. \<open>active\<close> is the guard of the first lines (canvas, container
  and result present, view mode \<^verbatim>\<open>boxes\<close>); otherwise the canvas is only cleared, at
  its current size.
\<close>

definition drawAnnotations :: "bool \<Rightarrow> real \<times> real \<Rightarrow> (string \<Rightarrow> real) \<Rightarrow> nat \<Rightarrow> nat \<Rightarrow> DetectedObject list \<Rightarrow> draw_cmd list" where
  "drawAnnotations active canvasSize measureText width height objects =
     (if \<not> active then [ClearRect 0 0 (fst canvasSize) (snd canvasSize)]
      else ClearRect 0 0 (real width) (real height) #
           concat (map (\<lambda>(idx, obj). annotateObject measureText width height idx obj)
                       (enumerate 0 objects)))"

text \<open>LiveStream.tsx 229-283, the callback of \<^verbatim>\<open>objects.forEach\<close> in \<^verbatim>\<open>draw\<close>.\<close>

definition drawObject :: "(string \<Rightarrow> real) \<Rightarrow> real \<Rightarrow> bool \<Rightarrow> nat \<Rightarrow> nat \<Rightarrow> real \<Rightarrow> nat \<Rightarrow> DetectedObject \<Rightarrow> draw_cmd list" where
  "drawObject measureText confidenceThreshold showLabels width height opac idx obj =
     (if confidence obj < confidenceThreshold then []
      else case normalizeToCanvas (box_2d obj) width height of (x, y, w, h) \<Rightarrow>
        (let color = HSLA (hue idx) 80 60 opac;
             colorOpac = HSLA (hue idx) 80 60 (0.15 * opac);
             textColor = RGBA 0 0 0 opac;
             bracketLen = min w h * 0.2
         in [StrokePath color
               [[(x, y + bracketLen), (x, y), (x + bracketLen, y)],
                [(x + w - bracketLen, y), (x + w, y), (x + w, y + bracketLen)],
                [(x + w, y + h - bracketLen), (x + w, y + h), (x + w - bracketLen, y + h)],
                [(x + bracketLen, y + h), (x, y + h), (x, y + h - bracketLen)]],
             FillRect colorOpac x y w h] @
            (if showLabels then
               (let labelText = toUpperCase (label obj) @ '' '' @
                                showInt (Math_round (confidence obj * 100)) @ ''%'';
                    tmWidth = measureText labelText;
                    ly = (if y - 22 < 0 then y + h + 8 else y - 22)
                in [FillRoundRect color x ly (tmWidth + 12) 22 4,
                    FillText textColor labelText (x + 6) (ly + 12)])
             else [])))"

text \<open>
  LiveStream.tsx 187-287. \<open>ready\<close> is the guard of the first lines (canvas, video and
  container present, video ready, 2D context available); the canvas has the display size
  \<open>width\<close> by \<open>height\<close> of the video.
\<close>

definition draw :: "bool \<Rightarrow> bool \<Rightarrow> int \<Rightarrow> int \<Rightarrow> DetectedObject list \<Rightarrow> (string \<Rightarrow> real) \<Rightarrow> real \<Rightarrow> bool \<Rightarrow> nat \<Rightarrow> nat \<Rightarrow> draw_cmd list" where
  "draw ready scanning now lastDetectionTime objects measureText confidenceThreshold showLabels width height =
     (if \<not> ready then []
      else ClearRect 0 0 (real width) (real height) #
           (if scanning then
              (let time = real_of_int now / 1500;
                   scanY = (sin time * 0.5 + 0.5) * real height
               in [FillRect (ScanGradient (scanY - 20) (scanY + 20)) 0 (scanY - 20) (real width) 40])
            else []) @
           (let opac = opacity now lastDetectionTime
            in if opac > 0 then
                 concat (map (\<lambda>(idx, obj). drawObject measureText confidenceThreshold showLabels
                                              width height opac idx obj)
                             (enumerate 0 objects))
               else []))"

section \<open>Inference service (geminiService.ts 102-146)\<close>

text \<open>
  What \<^verbatim>\<open>ai.models.generateContent\<close> can give back to \<^verbatim>\<open>analyzeVideoFrameWithGemini\<close>:
  the request rejects (transport error), the response has no text, the text (after the
  markdown fences are stripped) is not valid JSON, or it parses to a value whose
  \<^verbatim>\<open>objects\<close> member is absent (\<open>None\<close>) or a list of detections.
\<close>

datatype api_reply =
    TransportError
  | NoText
  | MalformedJson
  | Json "DetectedObject list option"

text \<open>
  The whole body is inside \<^verbatim>\<open>try\<close>, and the \<^verbatim>\<open>catch\<close> returns
  \<^verbatim>\<open>{ objects: [] }\<close>: the promise never rejects. The result is the \<^verbatim>\<open>objects\<close> field.
\<close>

definition analyzeVideoFrameWithGemini :: "api_reply \<Rightarrow> DetectedObject list" where
  "analyzeVideoFrameWithGemini reply =
     (case reply of
        TransportError \<Rightarrow> []
      | NoText \<Rightarrow> []
      | MalformedJson \<Rightarrow> []
      | Json None \<Rightarrow> []
      | Json (Some objects) \<Rightarrow> objects)"

section \<open>Live capture loop (LiveStream.tsx 11-184)\<close>

datatype perf_mode = speed | accuracy

text \<open>
  \<^verbatim>\<open>runAnalysisLoop\<close> is created anew by every render of the component and reads the
  constants \<^verbatim>\<open>errorCount\<close> and \<^verbatim>\<open>latency\<close> of that render (lines 111, 145, 159 and
  160); a call of \<^verbatim>\<open>setErrorCount\<close> or \<^verbatim>\<open>setLatency\<close> changes the state of the
  component, not these constants. The other values the function needs come from refs.
  A \<open>closure\<close> holds the two constants one such function instance sees. The callback a
  timer holds is a function instance; the loop passes itself to \<^verbatim>\<open>setTimeout\<close> (lines
  81 and 163).
\<close>

record closure =
  seen_errorCount :: nat
  seen_latency :: int

datatype task = RunAnalysisLoop closure | ClearSystemMessage

text \<open>
  The component: its \<^verbatim>\<open>useState\<close> values (as of the latest update), its refs, and
  the pending timers of the page as (handle, callback, delay). \<open>detectedObjectsId\<close> stands
  for the identity of the array held in \<^verbatim>\<open>detectedObjects\<close>, which is what the
  dependency list of an effect compares.
\<close>

record LiveStream =
  isScanning :: bool
  isProcessing :: bool
  detectedObjects :: "DetectedObject list"
  detectedObjectsId :: nat
  latency :: int
  inferenceFps :: int
  errorCount :: nat
  systemMessage :: "string option"
  performanceMode :: perf_mode
  isMountedRef :: bool
  timeoutRef :: "nat option"
  lastDetectionTimeRef :: int
  frameCountRef :: int
  lastFpsUpdateRef :: int
  isScanningRef :: bool
  detectedObjectsRef :: "DetectedObject list"
  performanceModeRef :: perf_mode
  timers :: "(nat \<times> task \<times> nat) list"
  nextTimer :: nat

definition setTimeout :: "task \<Rightarrow> nat \<Rightarrow> LiveStream \<Rightarrow> nat \<times> LiveStream" where
  "setTimeout callback delay s =
     (nextTimer s,
      s\<lparr>timers := timers s @ [(nextTimer s, callback, delay)], nextTimer := Suc (nextTimer s)\<rparr>)"

definition clearTimeout :: "nat \<Rightarrow> LiveStream \<Rightarrow> LiveStream" where
  "clearTimeout handle s = s\<lparr>timers := filter (\<lambda>t. fst t \<noteq> handle) (timers s)\<rparr>"

definition setDetectedObjects :: "DetectedObject list \<Rightarrow> LiveStream \<Rightarrow> LiveStream" where
  "setDetectedObjects objects s =
     s\<lparr>detectedObjects := objects, detectedObjectsId := Suc (detectedObjectsId s)\<rparr>"

subsection \<open>Effects (lines 39-59)\<close>

definition effect_isScanning :: "LiveStream \<Rightarrow> LiveStream" where
  "effect_isScanning s =
     (let s1 = s\<lparr>isScanningRef := isScanning s\<rparr>
      in if \<not> isScanning s then
           s1\<lparr>systemMessage := None, errorCount := 0, isProcessing := False,
              latency := 0, inferenceFps := 0\<rparr>
         else s1)"

definition effect_detectedObjects :: "int \<Rightarrow> LiveStream \<Rightarrow> LiveStream" where
  "effect_detectedObjects now s =
     (let s1 = s\<lparr>detectedObjectsRef := detectedObjects s\<rparr>
      in if length (detectedObjects s) > 0 then s1\<lparr>lastDetectionTimeRef := now\<rparr> else s1)"

definition effect_performanceMode :: "LiveStream \<Rightarrow> LiveStream" where
  "effect_performanceMode s = s\<lparr>performanceModeRef := performanceMode s\<rparr>"

text \<open>
  A render is committed: each effect runs if its dependency differs from the one of the
  previous commit \<open>prev\<close>.
\<close>

definition commit :: "int \<Rightarrow> LiveStream \<Rightarrow> LiveStream \<Rightarrow> LiveStream" where
  "commit now prev s =
     (let s1 = (if isScanning s \<noteq> isScanning prev then effect_isScanning s else s);
          s2 = (if detectedObjectsId s \<noteq> detectedObjectsId prev
                then effect_detectedObjects now s1 else s1)
      in if performanceMode s \<noteq> performanceMode prev then effect_performanceMode s2 else s2)"

text \<open>The component after its first render, all effects having run once.\<close>

definition mount :: "int \<Rightarrow> LiveStream" where
  "mount now =
     effect_performanceMode (effect_detectedObjects now (effect_isScanning
       \<lparr>isScanning = False, isProcessing = False, detectedObjects = [], detectedObjectsId = 0,
        latency = 0, inferenceFps = 0, errorCount = 0, systemMessage = None,
        performanceMode = speed, isMountedRef = True, timeoutRef = None,
        lastDetectionTimeRef = 0, frameCountRef = 0, lastFpsUpdateRef = now,
        isScanningRef = False, detectedObjectsRef = [], performanceModeRef = speed,
        timers = [], nextTimer = 1\<rparr>))"

subsection \<open>runAnalysisLoop (lines 76-167)\<close>

text \<open>Lines 153-160, the delay of the next poll as the \<^verbatim>\<open>finally\<close> block computes it.\<close>

definition adaptiveDelay :: "closure \<Rightarrow> perf_mode \<Rightarrow> nat" where
  "adaptiveDelay env currentMode =
     (let delay = (if currentMode = speed then 30 else 100);
          delay = (if seen_latency env > 1000 then 200 else delay)
      in if seen_errorCount env > 0 then min (500 * seen_errorCount env) 3000 else delay)"

text \<open>The \<^verbatim>\<open>finally\<close> block; the function reschedules itself, the same instance.\<close>

definition runAnalysisLoop_finally :: "closure \<Rightarrow> LiveStream \<Rightarrow> LiveStream" where
  "runAnalysisLoop_finally env s =
     (if isMountedRef s then
        (let s1 = s\<lparr>isProcessing := False\<rparr>;
             delay = adaptiveDelay env (performanceModeRef s1)
         in if isScanningRef s1 then
              (case setTimeout (RunAnalysisLoop env) delay s1 of
                 (handle, s2) \<Rightarrow> s2\<lparr>timeoutRef := Some handle\<rparr>)
            else s1)
      else s)"

text \<open>
  The state of the webcam when the loop runs: the video is not ready, or it is and
  \<^verbatim>\<open>getScreenshot\<close> returns null or an image.
\<close>

datatype webcam = NotReady | NoScreenshot | Screenshot

text \<open>
  The function up to its \<^verbatim>\<open>await\<close> (lines 77-106). It either runs to its end, or is
  suspended on the request, holding the \<^verbatim>\<open>currentMode\<close> it read.
\<close>

datatype progress = Returned | Awaiting perf_mode

definition runAnalysisLoop_start :: "closure \<Rightarrow> webcam \<Rightarrow> LiveStream \<Rightarrow> progress \<times> LiveStream" where
  "runAnalysisLoop_start env cam s =
     (if \<not> isScanningRef s \<or> \<not> isMountedRef s then (Returned, s)
      else if cam = NotReady then
        (case setTimeout (RunAnalysisLoop env) 200 s of
           (handle, s1) \<Rightarrow> (Returned, s1\<lparr>timeoutRef := Some handle\<rparr>))
      else
        (let s1 = s\<lparr>isProcessing := True\<rparr>;
             currentMode = performanceModeRef s1
         in if cam = Screenshot then (Awaiting currentMode, s1)
            else (Returned, runAnalysisLoop_finally env s1)))"

text \<open>
  \<^verbatim>\<open>Promise.race([apiCall, timeoutPromise])\<close>: the request settles first, or the 6000 ms
  timer does and the race rejects with its error.
\<close>

datatype race = ApiFirst api_reply | TimeoutFirst

definition Promise_race :: "race \<Rightarrow> string + DetectedObject list" where
  "Promise_race r =
     (case r of
        ApiFirst reply \<Rightarrow> Inr (analyzeVideoFrameWithGemini reply)
      | TimeoutFirst \<Rightarrow> Inl ''Request Timeout'')"

text \<open>
  The function from the \<^verbatim>\<open>await\<close> on (lines 106-166), run on the component as it is
  when the race settles. \<open>startTime\<close> and \<open>endTime\<close> are the two readings of
  \<^verbatim>\<open>performance.now()\<close>, \<open>now\<close> is \<^verbatim>\<open>Date.now()\<close>.
\<close>

definition runAnalysisLoop_resume :: "closure \<Rightarrow> perf_mode \<Rightarrow> real \<Rightarrow> real \<Rightarrow> int \<Rightarrow> race \<Rightarrow> LiveStream \<Rightarrow> LiveStream" where
  "runAnalysisLoop_resume env currentMode startTime endTime now r s =
     runAnalysisLoop_finally env
       (case Promise_race r of
          Inr objects \<Rightarrow>
            if isMountedRef s \<and> isScanningRef s then
              (let s1 = (if length objects > 0 \<or> seen_errorCount env > 0
                         then setDetectedObjects objects s else s);
                   currentLatency = Math_round (endTime - startTime);
                   s2 = s1\<lparr>latency := currentLatency, errorCount := 0, systemMessage := None,
                           frameCountRef := frameCountRef s1 + 1\<rparr>;
                   s3 = (if now - lastFpsUpdateRef s2 > 1000
                         then s2\<lparr>inferenceFps := frameCountRef s2, frameCountRef := 0,
                                 lastFpsUpdateRef := now\<rparr>
                         else s2)
               in if currentLatency > 2500 \<and> currentMode = accuracy then
                    snd (setTimeout ClearSystemMessage 3000
                          (s3\<lparr>performanceMode := speed,
                              systemMessage := Some ''Network slow. Switched to Turbo Mode.''\<rparr>))
                  else s3)
            else s
        | Inl error \<Rightarrow>
            if isMountedRef s \<and> isScanningRef s then
              (let s1 = s\<lparr>errorCount := errorCount s + 1\<rparr>
               in if seen_errorCount env > 4
                  then s1\<lparr>systemMessage := Some ''Connection unstable. Retrying...''\<rparr>
                  else s1)
            else s)"

subsection \<open>toggleScanning (lines 169-184)\<close>

text \<open>
  The click handler belongs to the latest render, so its \<^verbatim>\<open>isScanning\<close> is the current
  one, and the \<^verbatim>\<open>runAnalysisLoop\<close> it schedules is the instance of that same render: it
  sees the \<^verbatim>\<open>errorCount\<close> and \<^verbatim>\<open>latency\<close> the component has at the click. The handle
  of this first timer is not kept. Timer handles are positive numbers, so the test
  \<^verbatim>\<open>if (timeoutRef.current)\<close> is the test that a handle has been stored.
\<close>

definition toggleScanning :: "int \<Rightarrow> LiveStream \<Rightarrow> LiveStream" where
  "toggleScanning now s =
     (if isScanning s then
        (let s1 = setDetectedObjects [] (s\<lparr>isScanning := False\<rparr>)
         in case timeoutRef s1 of
              Some handle \<Rightarrow> clearTimeout handle s1
            | None \<Rightarrow> s1)
      else
        (let s1 = s\<lparr>isScanning := True, errorCount := 0, systemMessage := None, latency := 0,
                    inferenceFps := 0, frameCountRef := 0, lastFpsUpdateRef := now\<rparr>
         in snd (setTimeout
                   (RunAnalysisLoop \<lparr>seen_errorCount = errorCount s, seen_latency = latency s\<rparr>)
                   100 s1)))"

subsection \<open>The page's timers\<close>

text \<open>
  The timer with the given handle fires. A loop timer runs one capture cycle: the function
  up to the request, a commit, the rest of the function once the race has settled as \<open>r\<close>,
  and the commit of what it changed. No other event comes in between.
\<close>

definition timerFires :: "nat \<Rightarrow> webcam \<Rightarrow> race \<Rightarrow> real \<Rightarrow> real \<Rightarrow> int \<Rightarrow> LiveStream \<Rightarrow> LiveStream" where
  "timerFires handle cam r startTime endTime now s =
     (case map_of (timers s) handle of
        None \<Rightarrow> s
      | Some (ClearSystemMessage, delay) \<Rightarrow> (clearTimeout handle s)\<lparr>systemMessage := None\<rparr>
      | Some (RunAnalysisLoop env, delay) \<Rightarrow>
          (let s0 = clearTimeout handle s
           in case runAnalysisLoop_start env cam s0 of
                (Returned, s1) \<Rightarrow> commit now s0 s1
              | (Awaiting currentMode, s1) \<Rightarrow>
                  (let s2 = commit now s0 s1
                   in commit now s2
                        (runAnalysisLoop_resume env currentMode startTime endTime now r s2))))"

text \<open>The click on the start/stop button, with the commit that follows it.\<close>

definition click :: "int \<Rightarrow> LiveStream \<Rightarrow> LiveStream" where
  "click now s = commit now s (toggleScanning now s)"






section \<open>Concrete inputs\<close>

text \<open>
  The detection of Scenario A, the same label with its x coordinates swapped, and one close
  to the right edge of the canvas.
\<close>

definition car :: DetectedObject where
  "car = \<lparr>label = ''car'', confidence = 0.92, box_2d = (100, 100, 400, 600)\<rparr>"

definition flippedCar :: DetectedObject where
  "flippedCar = \<lparr>label = ''car'', confidence = 0.92, box_2d = (100, 600, 400, 100)\<rparr>"

definition edgeCar :: DetectedObject where
  "edgeCar = \<lparr>label = ''car'', confidence = 0.92, box_2d = (100, 950, 400, 990)\<rparr>"

text \<open>
  A freshly mounted component on which the start button is clicked; the loop instance this
  schedules sees \<^verbatim>\<open>errorCount = 0\<close> and \<^verbatim>\<open>latency = 0\<close>.
\<close>

definition loop0 :: closure where
  "loop0 = \<lparr>seen_errorCount = 0, seen_latency = 0\<rparr>"

definition started :: LiveStream where
  "started = click 0 (mount 0)"

text \<open>Five capture cycles in a row whose request takes longer than the 6000 ms of the race.\<close>

definition oneTimeout :: LiveStream where
  "oneTimeout = timerFires 1 Screenshot TimeoutFirst 100 6100 6100 started"

definition twoTimeouts :: LiveStream where
  "twoTimeouts = timerFires 2 Screenshot TimeoutFirst 6130 12130 12130 oneTimeout"

definition threeTimeouts :: LiveStream where
  "threeTimeouts = timerFires 3 Screenshot TimeoutFirst 12160 18160 18160 twoTimeouts"

definition fourTimeouts :: LiveStream where
  "fourTimeouts = timerFires 4 Screenshot TimeoutFirst 18190 24190 24190 threeTimeouts"

definition fiveTimeouts :: LiveStream where
  "fiveTimeouts = timerFires 5 Screenshot TimeoutFirst 24220 30220 30220 fourTimeouts"

text \<open>After one timeout, a cycle whose request fails in transport, or returns broken JSON.\<close>

definition transportErrorAfterTimeout :: LiveStream where
  "transportErrorAfterTimeout =
     timerFires 2 Screenshot (ApiFirst TransportError) 6130 6400 6400 oneTimeout"

definition malformedJsonAfterTimeout :: LiveStream where
  "malformedJsonAfterTimeout =
     timerFires 2 Screenshot (ApiFirst MalformedJson) 6130 6400 6400 oneTimeout"

text \<open>After one timeout the next cycle starts and its request is in flight.\<close>

definition retrying :: LiveStream where
  "retrying = snd (runAnalysisLoop_start loop0 Screenshot (clearTimeout 2 oneTimeout))"

text \<open>A cycle that detects the car, then a timeout, then a successful but empty response.\<close>

definition seenCar :: LiveStream where
  "seenCar = timerFires 1 Screenshot (ApiFirst (Json (Some [car]))) 100 400 400 started"

definition carThenTimeout :: LiveStream where
  "carThenTimeout = timerFires 2 Screenshot TimeoutFirst 430 6430 6430 seenCar"

definition carTimeoutEmpty :: LiveStream where
  "carTimeoutEmpty =
     timerFires 3 Screenshot (ApiFirst (Json (Some []))) 6460 6700 6700 carThenTimeout"







section \<open>Properties of the geometry, the hues, the fade and the heat ramp\<close>

lemma coprime_137_360: "coprime (137::nat) 360"
  by (simp add: coprime_iff_gcd_eq_1 gcd_nat.simps)

text \<open>
  C10. The hue \<open>(i * 137) mod 360\<close> is injective on the indices below 360: two different
  detections among the first 360 of a frame never get the same hue.
\<close>

theorem hue_injective: "i < j \<Longrightarrow> j < 360 \<Longrightarrow> hue i \<noteq> hue j"
proof
  assume ij: "i < j" and j: "j < 360" and eq: "hue i = hue j"
  from eq have "(j * 137) mod 360 = (i * 137) mod 360"
    by (simp add: hue_def)
  moreover from ij have "i * 137 \<le> j * 137"
    by simp
  ultimately have "360 dvd j * 137 - i * 137"
    by (simp add: mod_eq_dvd_iff_nat)
  then have "360 dvd (j - i) * 137"
    by (simp add: diff_mult_distrib)
  then have "360 dvd j - i"
    using coprime_137_360 by (simp add: coprime_dvd_mult_left_iff coprime_commute)
  moreover from ij j have "0 < j - i" "j - i < 360"
    by simp_all
  ultimately show False
    by (auto dest: dvd_imp_le)
qed

theorem hue_injective_witness:
  "(1::nat) < 2 \<and> (2::nat) < 360 \<and> hue 1 = 137 \<and> hue 2 = 274 \<and> hue 1 \<noteq> hue 2"
  using hue_injective [of 1 2] by (simp add: hue_def)

text \<open>
  C7. For a box with \<open>0 \<le> ymin \<le> ymax \<le> 1000\<close> and \<open>0 \<le> xmin \<le> xmax \<le> 1000\<close> and
  a canvas of any size \<open>W\<close> by \<open>H\<close>, the pixel rectangle is
  \<open>x = (xmin/1000) W\<close>, \<open>y = (ymin/1000) H\<close>, \<open>w = ((xmax - xmin)/1000) W\<close>,
  \<open>h = ((ymax - ymin)/1000) H\<close>, and it lies within the canvas: \<open>0 \<le> x\<close>, \<open>0 \<le> y\<close>,
  \<open>x + w \<le> W\<close> and \<open>y + h \<le> H\<close> (in exact arithmetic).
\<close>

theorem normalizeToCanvas_within_canvas:
  assumes "0 \<le> ymin" "ymin \<le> ymax" "ymax \<le> 1000" "0 \<le> xmin" "xmin \<le> xmax" "xmax \<le> 1000"
  shows "normalizeToCanvas (ymin, xmin, ymax, xmax) W H =
           ((xmin / 1000) * real W, (ymin / 1000) * real H,
            ((xmax - xmin) / 1000) * real W, ((ymax - ymin) / 1000) * real H) \<and>
         (case normalizeToCanvas (ymin, xmin, ymax, xmax) W H of
            (x, y, w, h) \<Rightarrow> 0 \<le> x \<and> 0 \<le> y \<and> x + w \<le> real W \<and> y + h \<le> real H)"
proof -
  have "xmax / 1000 * real W \<le> 1 * real W"
    using assms by (intro mult_right_mono) simp_all
  moreover have "ymax / 1000 * real H \<le> 1 * real H"
    using assms by (intro mult_right_mono) simp_all
  ultimately show ?thesis
    using assms by (simp add: normalizeToCanvas_def algebra_simps diff_divide_distrib)
qed

theorem normalizeToCanvas_within_canvas_witness:
  "normalizeToCanvas (box_2d car) 1000 1000 = (100, 100, 500, 300) \<and>
   (0::real) \<le> 100 \<and> (100::real) + 500 \<le> real 1000 \<and> (100::real) + 300 \<le> real 1000"
  using normalizeToCanvas_within_canvas [of 100 400 100 600 1000 1000] by (simp add: car_def)

text \<open>
  C6. For \<open>now \<ge> lastDetectionAt\<close> the opacity of the stale detections is
  \<open>clamp (1 - (now - lastDetectionAt) / 1500) 0 1\<close>: it is 1 when the two are equal, 0 once
  1500 ms or more have elapsed, never increases with the elapsed time, and decreases
  strictly up to 1500 ms.
\<close>

theorem opacity_fade:
  assumes "lastAt \<le> now" "now \<le> now'"
  shows "opacity now lastAt = max 0 (min 1 (1 - real_of_int (now - lastAt) / 1500)) \<and>
         opacity lastAt lastAt = 1 \<and>
         (1500 \<le> now - lastAt \<longrightarrow> opacity now lastAt = 0) \<and>
         opacity now' lastAt \<le> opacity now lastAt \<and>
         (now < now' \<and> now' - lastAt \<le> 1500 \<longrightarrow> opacity now' lastAt < opacity now lastAt)"
  using assms by (auto simp add: opacity_def max_def min_def field_simps)

theorem opacity_fade_witness:
  "opacity 100 100 = 1 \<and> opacity 850 100 = 1 / 2 \<and> opacity 1600 100 = 0 \<and>
   opacity 2000 100 = 0 \<and> opacity 1600 100 < opacity 850 100"
  using opacity_fade [of 100 850 1600] opacity_fade [of 100 1600 2000]
  by (simp add: opacity_def)

text \<open>
  C8. At the segment boundaries the ramp gives the pure colours: \<open>t = 0.25\<close> cyan
  (0, 255, 255), \<open>t = 0.5\<close> green (0, 255, 0), \<open>t = 0.75\<close> yellow (255, 255, 0) and
  \<open>t = 1\<close> red (255, 0, 0); the last is the pixel with accumulated alpha 255, whose
  output alpha is capped at 180.
\<close>

theorem heat_ramp_boundaries:
  "heatRamp 0.25 = (0, 255, 255) \<and> heatRamp 0.5 = (0, 255, 0) \<and>
   heatRamp 0.75 = (255, 255, 0) \<and> heatRamp 1 = (255, 0, 0) \<and>
   recolorPixel r0 g0 b0 255 = [255, 0, 0, 180]"
  by (simp add: heatRamp_def recolorPixel_def toUint8Clamped_def)

section \<open>Properties of the annotation renderers\<close>

text \<open>
  C4, as stated, fails: for the car with its x coordinates swapped (\<open>xmax < xmin\<close>) on a
  1000 by 1000 canvas, the static annotator passes the width \<open>-500\<close> to
  \<^verbatim>\<open>strokeRect\<close> and \<^verbatim>\<open>fillRect\<close>; it is not clamped to 0.
\<close>

theorem malformed_box_negative_extent:
  "annotateObject (\<lambda>text. 88) 1000 1000 0 flippedCar =
     [StrokeRect (HSLA 0 80 50 1) 600 100 (- 500) 300,
      FillRect (HSLA 0 80 50 0.1) 600 100 (- 500) 300,
      FillRoundRect (HSLA 0 80 50 1) 600 78 100 22 4,
      FillText (RGBA 255 255 255 1) ''car 92%'' 606 89]"
  by (simp add: annotateObject_def flippedCar_def normalizeToCanvas_def hue_def Math_round_def
      showInt_def Let_def)

text \<open>
  C4, amended. For every detection box with non-monotonic coordinates (\<open>xmax < xmin\<close> or
  \<open>ymax < ymin\<close>) on a canvas of positive size, neither renderer clamps: the width
  \<open>((xmax - xmin)/1000) W\<close> and the height \<open>((ymax - ymin)/1000) H\<close> are used as
  computed, the width being negative exactly when \<open>xmax < xmin\<close> and the height exactly
  when \<open>ymax < ymin\<close>; and the renderer issues all its drawing calls for the box with
  these values: the static annotator its stroked and filled rectangle, label chip and
  label text, the live renderer its bracket path, filled rectangle and, when labels are
  shown, label chip and label text.
\<close>

theorem malformed_box_not_clamped:
  assumes "box_2d obj = (ymin, xmin, ymax, xmax)" and "xmax < xmin \<or> ymax < ymin"
    and "0 < width" "0 < height" and "confidenceThreshold \<le> confidence obj"
  shows "(let x = (xmin / 1000) * real width; y = (ymin / 1000) * real height;
              w = ((xmax - xmin) / 1000) * real width; h = ((ymax - ymin) / 1000) * real height;
              percent = showInt (Math_round (confidence obj * 100));
              text = label obj @ '' '' @ percent @ ''%'';
              textWidth = measureText text + 12;
              labelY = (if y - 22 < 0 then y else y - 22);
              labelX = (if x + textWidth > real width then real width - textWidth else x);
              labelText = toUpperCase (label obj) @ '' '' @ percent @ ''%'';
              ly = (if y - 22 < 0 then y + h + 8 else y - 22);
              bracketLen = min w h * 0.2
          in (w < 0 \<or> h < 0) \<and> (w < 0) = (xmax < xmin) \<and> (h < 0) = (ymax < ymin) \<and>
             annotateObject measureText width height idx obj =
               [StrokeRect (HSLA (hue idx) 80 50 1) x y w h,
                FillRect (HSLA (hue idx) 80 50 0.1) x y w h,
                FillRoundRect (HSLA (hue idx) 80 50 1) labelX labelY textWidth 22 4,
                FillText (RGBA 255 255 255 1) text (labelX + 6) (labelY + 11)] \<and>
             drawObject measureText confidenceThreshold showLabels width height opac idx obj =
               [StrokePath (HSLA (hue idx) 80 60 opac)
                  [[(x, y + bracketLen), (x, y), (x + bracketLen, y)],
                   [(x + w - bracketLen, y), (x + w, y), (x + w, y + bracketLen)],
                   [(x + w, y + h - bracketLen), (x + w, y + h), (x + w - bracketLen, y + h)],
                   [(x + bracketLen, y + h), (x, y + h), (x, y + h - bracketLen)]],
                FillRect (HSLA (hue idx) 80 60 (0.15 * opac)) x y w h] @
               (if showLabels
                then [FillRoundRect (HSLA (hue idx) 80 60 opac) x ly (measureText labelText + 12) 22 4,
                      FillText (RGBA 0 0 0 opac) labelText (x + 6) (ly + 12)]
                else []))"
proof -
  have w: "(((xmax - xmin) / 1000) * real width < 0) = (xmax < xmin)"
    using assms(3) by (simp add: mult_less_0_iff)
  have h: "(((ymax - ymin) / 1000) * real height < 0) = (ymax < ymin)"
    using assms(4) by (simp add: mult_less_0_iff)
  show ?thesis
    unfolding Let_def w h using assms(1,2,5)
    by (simp add: annotateObject_def drawObject_def normalizeToCanvas_def Let_def)
qed

theorem malformed_box_not_clamped_witness:
  "annotateObject (\<lambda>text. 88) 1000 1000 0 flippedCar =
     [StrokeRect (HSLA 0 80 50 1) 600 100 (- 500) 300,
      FillRect (HSLA 0 80 50 0.1) 600 100 (- 500) 300,
      FillRoundRect (HSLA 0 80 50 1) 600 78 100 22 4,
      FillText (RGBA 255 255 255 1) ''car 92%'' 606 89] \<and>
   drawObject (\<lambda>text. 88) 0.4 True 1000 1000 1 0 flippedCar =
     [StrokePath (HSLA 0 80 60 1)
        [[(600, 0), (600, 100), (500, 100)], [(200, 100), (100, 100), (100, 0)],
         [(100, 500), (100, 400), (200, 400)], [(500, 400), (600, 400), (600, 500)]],
      FillRect (HSLA 0 80 60 0.15) 600 100 (- 500) 300,
      FillRoundRect (HSLA 0 80 60 1) 600 78 100 22 4,
      FillText (RGBA 0 0 0 1) ''CAR 92%'' 606 90]"
proof -
  have b: "box_2d flippedCar = (100, 600, 400, 100)" and c: "0.4 \<le> confidence flippedCar"
    by (simp_all add: flippedCar_def)
  have "(100::real) < 600 \<or> (400::real) < 100" and "0 < (1000::nat)"
    by simp_all
  from malformed_box_not_clamped [OF b this(1) this(2) this(2) c, of "\<lambda>text. 88" 0 True 1]
  show ?thesis
    by (simp add: hue_def flippedCar_def Math_round_def showInt_def toUpperCase_def Let_def)
qed

text \<open>
  Where each renderer puts the label chip (the third drawing call of a detection). The
  static annotator moves it to the top edge of the box when it would start above the
  canvas, and to the left when it would end past the right edge; the live renderer moves
  it below the box in the first case, and always starts it at the left edge of the box.
\<close>

lemma annotateObject_label_chip:
  "annotateObject measureText width height idx obj ! 2 =
     (case normalizeToCanvas (box_2d obj) width height of (x, y, w, h) \<Rightarrow>
        let textWidth =
              measureText (label obj @ '' '' @ showInt (Math_round (confidence obj * 100)) @ ''%'')
                + 12
        in FillRoundRect (HSLA (hue idx) 80 50 1)
             (if x + textWidth > real width then real width - textWidth else x)
             (if y - 22 < 0 then y else y - 22) textWidth 22 4)"
  by (simp add: annotateObject_def Let_def split: prod.splits)

lemma drawObject_label_chip:
  "confidenceThreshold \<le> confidence obj \<Longrightarrow>
   drawObject measureText confidenceThreshold True width height opac idx obj ! 2 =
     (case normalizeToCanvas (box_2d obj) width height of (x, y, w, h) \<Rightarrow>
        FillRoundRect (HSLA (hue idx) 80 60 opac) x
          (if y - 22 < 0 then y + h + 8 else y - 22)
          (measureText (toUpperCase (label obj) @ '' '' @
                        showInt (Math_round (confidence obj * 100)) @ ''%'') + 12)
          22 4)"
  by (simp add: drawObject_def Let_def split: prod.splits)

text \<open>
  C9, at a failing input. A detection whose box starts at x = 950 on a canvas 1000 wide,
  with a label text measuring 88 pixels (chip width 100): the live renderer draws the chip
  at x = 950, so that it ends at 1050, past the right edge; the static annotator, on the
  same input, shifts it left to x = 900.
\<close>

theorem live_label_chip_clipped_at_right_edge:
  "drawObject (\<lambda>text. 88) 0.4 True 1000 1000 1 0 edgeCar =
     [StrokePath (HSLA 0 80 60 1)
        [[(950, 108), (950, 100), (958, 100)], [(982, 100), (990, 100), (990, 108)],
         [(990, 392), (990, 400), (982, 400)], [(958, 400), (950, 400), (950, 392)]],
      FillRect (HSLA 0 80 60 0.15) 950 100 40 300,
      FillRoundRect (HSLA 0 80 60 1) 950 78 100 22 4,
      FillText (RGBA 0 0 0 1) ''CAR 92%'' 956 90] \<and>
   annotateObject (\<lambda>text. 88) 1000 1000 0 edgeCar ! 2 =
      FillRoundRect (HSLA 0 80 50 1) 900 78 100 22 4"
  by (simp add: drawObject_def annotateObject_def edgeCar_def normalizeToCanvas_def hue_def
      Math_round_def showInt_def toUpperCase_def Let_def)

section \<open>Properties of the live capture loop\<close>

lemmas live_defs =
  click_def mount_def commit_def toggleScanning_def setTimeout_def clearTimeout_def
  setDetectedObjects_def effect_isScanning_def effect_detectedObjects_def
  effect_performanceMode_def timerFires_def runAnalysisLoop_start_def
  runAnalysisLoop_resume_def runAnalysisLoop_finally_def adaptiveDelay_def
  Promise_race_def analyzeVideoFrameWithGemini_def Math_round_def loop0_def

subsection \<open>What the functions do\<close>

text \<open>
  The loop instance scheduled by the start button sees the error count and the latency of
  the component at the click, and every later cycle is run by that same instance.
\<close>

lemma toggleScanning_start_closure:
  "\<not> isScanning s \<Longrightarrow>
   timers (toggleScanning now s) =
     timers s @ [(nextTimer s,
                  RunAnalysisLoop \<lparr>seen_errorCount = errorCount s, seen_latency = latency s\<rparr>,
                  100)]"
  by (simp add: toggleScanning_def setTimeout_def Let_def)

lemma finally_reschedules:
  assumes "isMountedRef s" "isScanningRef s"
  shows "runAnalysisLoop_finally env s =
           s\<lparr>isProcessing := False,
             timers := timers s @
               [(nextTimer s, RunAnalysisLoop env, adaptiveDelay env (performanceModeRef s))],
             nextTimer := Suc (nextTimer s), timeoutRef := Some (nextTimer s)\<rparr>"
  using assms by (simp add: runAnalysisLoop_finally_def setTimeout_def Let_def)

text \<open>
  The delay as a function of the error count the loop instance sees: the backoff formula
  when that count is positive, the base delay of the mode (or 200 ms) when it is 0. An
  instance that sees the count 4, the value before a fifth failure, computes 2000 ms.
\<close>

lemma adaptiveDelay_backoff:
  "0 < seen_errorCount env \<Longrightarrow>
   adaptiveDelay env currentMode = min (500 * seen_errorCount env) 3000"
  by (simp add: adaptiveDelay_def)

lemma adaptiveDelay_no_error_seen:
  "seen_errorCount env = 0 \<Longrightarrow>
   adaptiveDelay env currentMode =
     (if seen_latency env > 1000 then 200 else if currentMode = speed then 30 else 100)"
  by (simp add: adaptiveDelay_def)

lemma adaptiveDelay_seen_four:
  "adaptiveDelay \<lparr>seen_errorCount = 4, seen_latency = l\<rparr> currentMode = 2000"
  by (simp add: adaptiveDelay_def)

text \<open>
  A reply of the service replaces the detection set when it has objects, or when the loop
  instance sees a positive error count.
\<close>

lemma resume_replaces_detections:
  assumes "isMountedRef s" "isScanningRef s"
  shows "detectedObjects
           (runAnalysisLoop_resume env currentMode startTime endTime now (ApiFirst reply) s) =
           (if analyzeVideoFrameWithGemini reply \<noteq> [] \<or> seen_errorCount env > 0
            then analyzeVideoFrameWithGemini reply else detectedObjects s)"
  using assms
  by (simp add: runAnalysisLoop_resume_def Promise_race_def finally_reschedules setTimeout_def
      setDetectedObjects_def Let_def)




subsection \<open>The concrete runs\<close>

lemma started_eq:
  "started =
     \<lparr>isScanning = True, isProcessing = False, detectedObjects = [],
      detectedObjectsId = 0, latency = 0, inferenceFps = 0, errorCount = 0,
      systemMessage = None, performanceMode = speed, isMountedRef = True,
      timeoutRef = None, lastDetectionTimeRef = 0, frameCountRef = 0,
      lastFpsUpdateRef = 0, isScanningRef = True, detectedObjectsRef = [],
      performanceModeRef = speed, timers = [(1, RunAnalysisLoop loop0, 100)],
      nextTimer = 2\<rparr>"
  by (simp add: started_def live_defs)

lemma oneTimeout_eq:
  "oneTimeout =
     \<lparr>isScanning = True, isProcessing = False, detectedObjects = [],
      detectedObjectsId = 0, latency = 0, inferenceFps = 0, errorCount = 1,
      systemMessage = None, performanceMode = speed, isMountedRef = True,
      timeoutRef = Some 2, lastDetectionTimeRef = 0, frameCountRef = 0,
      lastFpsUpdateRef = 0, isScanningRef = True, detectedObjectsRef = [],
      performanceModeRef = speed, timers = [(2, RunAnalysisLoop loop0, 30)],
      nextTimer = 3\<rparr>"
  by (simp add: oneTimeout_def started_eq live_defs)

lemma twoTimeouts_eq:
  "twoTimeouts =
     oneTimeout\<lparr>errorCount := 2, timeoutRef := Some 3,
       timers := [(3, RunAnalysisLoop loop0, 30)], nextTimer := 4\<rparr>"
  by (simp add: twoTimeouts_def oneTimeout_eq live_defs)

lemma threeTimeouts_eq:
  "threeTimeouts =
     oneTimeout\<lparr>errorCount := 3, timeoutRef := Some 4,
       timers := [(4, RunAnalysisLoop loop0, 30)], nextTimer := 5\<rparr>"
  by (simp add: threeTimeouts_def twoTimeouts_eq oneTimeout_eq live_defs)

lemma fourTimeouts_eq:
  "fourTimeouts =
     oneTimeout\<lparr>errorCount := 4, timeoutRef := Some 5,
       timers := [(5, RunAnalysisLoop loop0, 30)], nextTimer := 6\<rparr>"
  by (simp add: fourTimeouts_def threeTimeouts_eq oneTimeout_eq live_defs)

lemma retrying_eq: "retrying = oneTimeout\<lparr>isProcessing := True, timers := []\<rparr>"
  by (simp add: retrying_def oneTimeout_eq live_defs)

lemma seenCar_eq:
  "seenCar =
     \<lparr>isScanning = True, isProcessing = False, detectedObjects = [car],
      detectedObjectsId = 1, latency = 300, inferenceFps = 0, errorCount = 0,
      systemMessage = None, performanceMode = speed, isMountedRef = True,
      timeoutRef = Some 2, lastDetectionTimeRef = 400, frameCountRef = 1,
      lastFpsUpdateRef = 0, isScanningRef = True, detectedObjectsRef = [car],
      performanceModeRef = speed, timers = [(2, RunAnalysisLoop loop0, 30)],
      nextTimer = 3\<rparr>"
  by (simp add: seenCar_def started_eq live_defs)

lemma carThenTimeout_eq:
  "carThenTimeout =
     seenCar\<lparr>errorCount := 1, timeoutRef := Some 3,
       timers := [(3, RunAnalysisLoop loop0, 30)], nextTimer := 4\<rparr>"
  by (simp add: carThenTimeout_def seenCar_eq live_defs)




subsection \<open>Stopping\<close>









subsection \<open>Replacing the detection set\<close>

text \<open>
  C2, at a failing input. A session is started on a fresh component; the first cycle
  detects a car, the second times out, so that the error streak is 1, and the third gets
  a successful response with no objects. The detection set is not replaced by the empty
  list: the car is still there, although the streak was not zero.
\<close>

theorem empty_reply_in_error_streak_keeps_detections:
  "errorCount carThenTimeout = 1 \<and> detectedObjects carThenTimeout = [car] \<and>
   detectedObjects carTimeoutEmpty = [car] \<and> detectedObjectsRef carTimeoutEmpty = [car]"
  by (simp add: carTimeoutEmpty_def carThenTimeout_eq seenCar_eq live_defs)

subsection \<open>The next poll delay\<close>

text \<open>
  C3, at a failing input. A session is started on a fresh component and five cycles in a
  row time out. The error streak is then 5, and the delay of the timer the fifth cycle
  schedules is 30 ms, the base delay of the speed mode, not 2500 ms.
\<close>

theorem five_timeouts_poll_delay:
  "errorCount fiveTimeouts = 5 \<and> timeoutRef fiveTimeouts = Some 6 \<and>
   timers fiveTimeouts = [(6, RunAnalysisLoop \<lparr>seen_errorCount = 0, seen_latency = 0\<rparr>, 30)]"
  by (simp add: fiveTimeouts_def fourTimeouts_eq oneTimeout_eq live_defs)

subsection \<open>Transient failures\<close>

text \<open>
  C5, as stated, fails: with an error streak of 1, a cycle whose request fails in
  transport, or whose response is not valid JSON, leaves the streak at 0, not at 2.
\<close>

theorem transport_error_resets_streak:
  "errorCount oneTimeout = 1 \<and> errorCount transportErrorAfterTimeout = 0 \<and>
   errorCount malformedJsonAfterTimeout = 0 \<and>
   errorCount transportErrorAfterTimeout \<noteq> errorCount oneTimeout + 1"
  by (simp add: transportErrorAfterTimeout_def malformedJsonAfterTimeout_def oneTimeout_eq
      live_defs)

text \<open>
  C5, amended. In a live capture cycle (component mounted, session scanning) a request
  timeout increments the consecutive-error streak by one; a transport error or a malformed
  JSON response is turned by the service into a successful response with no objects, and
  like every response it resets the streak to 0. In all these cases the session is not
  stopped: it is still scanning and the loop has rescheduled itself.
\<close>

theorem timeout_increments_reply_resets:
  assumes "isMountedRef s" "isScanningRef s"
  shows "(let s' = runAnalysisLoop_resume env currentMode startTime endTime now r s
          in errorCount s' =
               (case r of TimeoutFirst \<Rightarrow> errorCount s + 1 | ApiFirst reply \<Rightarrow> 0) \<and>
             analyzeVideoFrameWithGemini TransportError = [] \<and>
             analyzeVideoFrameWithGemini MalformedJson = [] \<and>
             isScanning s' = isScanning s \<and> isScanningRef s' \<and> isMountedRef s' \<and>
             timeoutRef s' = Some (nextTimer s' - 1) \<and>
             last (timers s') =
               (nextTimer s' - 1, RunAnalysisLoop env, adaptiveDelay env (performanceModeRef s)))"
proof (cases r)
  case TimeoutFirst
  then show ?thesis
    using assms
    by (simp add: runAnalysisLoop_resume_def Promise_race_def analyzeVideoFrameWithGemini_def
        finally_reschedules Let_def)
next
  case (ApiFirst reply)
  then show ?thesis
    using assms
    by (simp add: runAnalysisLoop_resume_def Promise_race_def analyzeVideoFrameWithGemini_def
        finally_reschedules setTimeout_def setDetectedObjects_def Let_def)
qed

theorem timeout_increments_reply_resets_witness:
  "isMountedRef retrying \<and> isScanningRef retrying \<and> errorCount retrying = 1 \<and>
   errorCount (runAnalysisLoop_resume loop0 speed 6130 12130 12130 TimeoutFirst retrying) = 2 \<and>
   errorCount
     (runAnalysisLoop_resume loop0 speed 6130 6400 6400 (ApiFirst TransportError) retrying) = 0 \<and>
   errorCount
     (runAnalysisLoop_resume loop0 speed 6130 6400 6400 (ApiFirst MalformedJson) retrying) = 0 \<and>
   isScanning (runAnalysisLoop_resume loop0 speed 6130 12130 12130 TimeoutFirst retrying) \<and>
   timers (runAnalysisLoop_resume loop0 speed 6130 12130 12130 TimeoutFirst retrying) =
     [(3, RunAnalysisLoop loop0, 30)]"
proof -
  have m: "isMountedRef retrying" and sc: "isScanningRef retrying"
    and e: "errorCount retrying = 1" and i: "isScanning retrying"
    by (simp_all add: retrying_eq oneTimeout_eq)
  have t: "timers (runAnalysisLoop_resume loop0 speed 6130 12130 12130 TimeoutFirst retrying) =
             [(3, RunAnalysisLoop loop0, 30)]"
    by (simp add: retrying_eq oneTimeout_eq live_defs)
  show ?thesis
    using timeout_increments_reply_resets [OF m sc, of loop0 speed 6130 12130 12130 TimeoutFirst]
      timeout_increments_reply_resets
        [OF m sc, of loop0 speed 6130 6400 6400 "ApiFirst TransportError"]
      timeout_increments_reply_resets
        [OF m sc, of loop0 speed 6130 6400 6400 "ApiFirst MalformedJson"]
      m sc e i t
    by (simp add: Let_def)
qed

end
